theory Spec2Isabelle
  imports Complex_Main
begin

section \<open>Helper classes of the solver (solver\_helper\_classes.py)\<close>

subsection \<open>NextPieceToPlace\<close>

text \<open>
  The class has a constructor and no methods. Python does not type the arguments, so the
  slot location, the piece sides and the compatibility score are type parameters. The two
  attributes the source names with a leading underscore carry the prefix \<open>priv_\<close>.
\<close>

record ('loc, 'side, 'score) NextPieceToPlace =
  puzzle_id :: int
  open_slot_location :: 'loc
  next_piece_id :: int
  next_piece_side :: 'side
  neighbor_piece_id :: int
  neighbor_piece_side :: 'side
  mutual_compatibility :: 'score
  is_best_buddy :: bool
  priv_numb_avg_placed_unplaced_links :: int
  priv_total_placed_unplaced_compatibility_diff :: int

definition NextPieceToPlace_init ::
  "int \<Rightarrow> 'loc \<Rightarrow> int \<Rightarrow> 'side \<Rightarrow> int \<Rightarrow> 'side \<Rightarrow> 'score \<Rightarrow> bool
     \<Rightarrow> ('loc, 'side, 'score) NextPieceToPlace" where
  "NextPieceToPlace_init puzzle_id' open_slot_location' next_piece_id' next_piece_side'
       neighbor_piece_id' neighbor_piece_side' compatibility is_best_buddy' =
     \<lparr> NextPieceToPlace.puzzle_id = puzzle_id',
       open_slot_location = open_slot_location',
       next_piece_id = next_piece_id',
       next_piece_side = next_piece_side',
       neighbor_piece_id = neighbor_piece_id',
       neighbor_piece_side = neighbor_piece_side',
       mutual_compatibility = compatibility,
       is_best_buddy = is_best_buddy',
       priv_numb_avg_placed_unplaced_links = 0,
       priv_total_placed_unplaced_compatibility_diff = 0 \<rparr>"

subsection \<open>Python's \<open>str\<close> on integers\<close>

text \<open>
  \<open>PuzzleLocation.key\<close> calls the built-in \<open>str\<close> on its three fields. For an
  integer, \<open>str\<close> is the decimal numeral without leading zeros, with a leading minus
  sign for a negative number.
\<close>

definition digit_char :: "nat \<Rightarrow> char" where
  "digit_char d = ''0123456789'' ! d"

function str_nat :: "nat \<Rightarrow> string" where
  "str_nat n = (if n < 10 then [digit_char n] else str_nat (n div 10) @ [digit_char (n mod 10)])"
  by pat_completeness auto
termination
  by (relation "measure (\<lambda>n. n)") auto

definition str_int :: "int \<Rightarrow> string" where
  "str_int i = (if i < 0 then CHR ''-'' # str_nat (nat (- i)) else str_nat (nat i))"

subsection \<open>PuzzleLocation\<close>

text \<open>
  The fields \<open>puzzle_id\<close>, \<open>row\<close> and \<open>column\<close> are public attributes; the claims
  are about integer values. \<open>priv_key\<close> is the attribute \<open>_key\<close>, \<open>None\<close> until the
  key is first read.
\<close>

record PuzzleLocation =
  puzzle_id :: int
  row :: int
  column :: int
  priv_key :: "string option"

definition PuzzleLocation_init :: "int \<Rightarrow> int \<Rightarrow> int \<Rightarrow> PuzzleLocation" where
  "PuzzleLocation_init puzzle_id' row' column' =
     \<lparr> puzzle_id = puzzle_id', row = row', column = column', priv_key = None \<rparr>"

definition location :: "PuzzleLocation \<Rightarrow> int \<times> int" where
  "location self = (row self, column self)"

text \<open>
  Reading the property \<open>key\<close> may write \<open>_key\<close>, so the model returns the string
  together with the object after the read.
\<close>

definition key :: "PuzzleLocation \<Rightarrow> string \<times> PuzzleLocation" where
  "key self =
     (case priv_key self of
        None \<Rightarrow>
          (let k = str_int (puzzle_id self) @ ''_'' @ str_int (row self) @ ''_''
                     @ str_int (column self)
           in (k, self\<lparr>priv_key := Some k\<rparr>))
      | Some k \<Rightarrow> (k, self))"

text \<open>
  What client code can do with one object: read either property, or assign one of the
  three public attributes.
\<close>

datatype location_op =
  GetLocation | GetKey | SetPuzzleId int | SetRow int | SetColumn int

fun location_step :: "location_op \<Rightarrow> PuzzleLocation \<Rightarrow> PuzzleLocation" where
  "location_step GetLocation self = self"
| "location_step GetKey self = snd (key self)"
| "location_step (SetPuzzleId v) self = self\<lparr>puzzle_id := v\<rparr>"
| "location_step (SetRow v) self = self\<lparr>row := v\<rparr>"
| "location_step (SetColumn v) self = self\<lparr>column := v\<rparr>"

definition location_run :: "location_op list \<Rightarrow> PuzzleLocation \<Rightarrow> PuzzleLocation" where
  "location_run ops self = fold location_step ops self"

text \<open>
  Two notions used to state when the key of an object describes its current fields.
  \<open>key_is_current\<close>: the key has not been read yet, or the cached string is the one the
  current fields give. \<open>is_read\<close>: the operation is one of the two property reads.
\<close>

definition key_is_current :: "PuzzleLocation \<Rightarrow> bool" where
  "key_is_current self =
     (case priv_key self of
        None \<Rightarrow> True
      | Some k \<Rightarrow> k = fst (key (self\<lparr>priv_key := None\<rparr>)))"

fun is_read :: "location_op \<Rightarrow> bool" where
  "is_read GetLocation = True"
| "is_read GetKey = True"
| "is_read (SetPuzzleId v) = False"
| "is_read (SetRow v) = False"
| "is_read (SetColumn v) = False"

text \<open>
  The class defines neither \<open>__eq__\<close> nor \<open>__hash__\<close>, so \<open>==\<close> on two
  PuzzleLocation objects is Python's default for objects: identity. Objects live in a
  store, a reference is an index into it, and the constructor allocates the next index.
\<close>

type_synonym ref = nat
type_synonym location_store = "PuzzleLocation list"

definition PuzzleLocation_new ::
  "location_store \<Rightarrow> int \<Rightarrow> int \<Rightarrow> int \<Rightarrow> ref \<times> location_store" where
  "PuzzleLocation_new h puzzle_id' row' column' =
     (length h, h @ [PuzzleLocation_init puzzle_id' row' column'])"

definition object_eq :: "ref \<Rightarrow> ref \<Rightarrow> bool" where
  "object_eq a b = (a = b)"

subsection \<open>NeighborSidePair\<close>

record 'side NeighborSidePair =
  priv_neighbor_id :: int
  priv_neighbor_side :: 'side

definition NeighborSidePair_init :: "int \<Rightarrow> 'side \<Rightarrow> 'side NeighborSidePair" where
  "NeighborSidePair_init neighbor_piece_id' neighbor_side =
     \<lparr> priv_neighbor_id = neighbor_piece_id', priv_neighbor_side = neighbor_side \<rparr>"

text \<open>
  The two properties only read; each returns its value and the object as it is after the
  read.
\<close>

definition id_number :: "'side NeighborSidePair \<Rightarrow> int \<times> 'side NeighborSidePair" where
  "id_number self = (priv_neighbor_id self, self)"

definition side :: "'side NeighborSidePair \<Rightarrow> 'side \<times> 'side NeighborSidePair" where
  "side self = (priv_neighbor_side self, self)"

datatype pair_op = GetIdNumber | GetSide

fun pair_step :: "pair_op \<Rightarrow> 'side NeighborSidePair \<Rightarrow> 'side NeighborSidePair" where
  "pair_step GetIdNumber self = snd (id_number self)"
| "pair_step GetSide self = snd (side self)"

section \<open>The reference builders of the importer test (puzzle\_importer\_tester.py)\<close>

subsection \<open>Constants of PuzzleTester\<close>

definition PIECE_WIDTH :: nat where
  "PIECE_WIDTH = 5"

definition NUMB_PUZZLE_PIECES :: nat where
  "NUMB_PUZZLE_PIECES = 9"

definition NUMB_PIXEL_DIMENSIONS :: nat where
  "NUMB_PIXEL_DIMENSIONS = 3"

definition TEST_ARRAY_FIRST_PIXEL_VALUE :: int where
  "TEST_ARRAY_FIRST_PIXEL_VALUE = 0"

definition TEST_IMAGE_WIDTH :: nat where
  "TEST_IMAGE_WIDTH = 300"

definition TEST_IMAGE_HEIGHT :: nat where
  "TEST_IMAGE_HEIGHT = 200"

subsection \<open>Library functions the builders call\<close>

text \<open>
  \<open>math.sqrt\<close> is only ever applied to \<open>NUMB_PUZZLE_PIECES\<close>. On a perfect square the
  floating-point root is the exact integer root, and the products the source forms with
  it are small integers that a double holds exactly, so the model computes with the
  integer root: the number of \<open>k \<ge> 1\<close> whose square is at most \<open>n\<close>.
\<close>

definition math_sqrt :: "nat \<Rightarrow> nat" where
  "math_sqrt n = length (filter (\<lambda>k. k * k \<le> n) [1..<Suc n])"

definition py_range :: "nat \<Rightarrow> nat \<Rightarrow> nat list" where
  "py_range a b = [a..<b]"

text \<open>
  A numpy array is a nested list, outermost axis first. \<open>numpy.zeros\<close> makes float
  cells and an assignment into the array converts the assigned integer to a float; the
  cell type and that conversion are the parameter \<open>store\<close> of the builders, so a zero
  cell is \<open>store 0\<close>. The source passes float extents to \<open>numpy.zeros\<close> in
  \<open>build_dummy_array\<close>; the numpy of the source's time truncates them to integers,
  which is the integer product here. An index outside the array raises \<open>IndexError\<close>.

  The conversion of a Python integer to a float raises \<open>OverflowError\<close> when the
  integer does not round to a finite double, that is from \<open>2 ^ 1024 - 2 ^ 970\<close> on in
  absolute value (the largest double is \<open>2 ^ 1024 - 2 ^ 971\<close> and half a unit in its
  last place is \<open>2 ^ 970\<close>). \<open>build_pixel_list\<close> writes integers computed from its
  argument \<open>start_value\<close>, which has no bound, so its write goes through
  \<open>float_of_int\<close>; numpy checks the index first and converts the value second.
  \<open>build_dummy_array\<close> writes the values of a counter that starts at the constant 0
  and is incremented once per cell.
\<close>

datatype py_error = IndexError | OverflowError

definition float64_fits :: "int \<Rightarrow> bool" where
  "float64_fits v = (\<bar>v\<bar> < 2 ^ 1024 - 2 ^ 970)"

definition float_of_int :: "(int \<Rightarrow> 'a) \<Rightarrow> int \<Rightarrow> py_error + 'a" where
  "float_of_int store v = (if float64_fits v then Inr (store v) else Inl OverflowError)"

definition numpy_zeros2 :: "'a \<Rightarrow> nat \<Rightarrow> nat \<Rightarrow> 'a list list" where
  "numpy_zeros2 z n0 n1 = replicate n0 (replicate n1 z)"

definition numpy_zeros3 :: "'a \<Rightarrow> nat \<Rightarrow> nat \<Rightarrow> nat \<Rightarrow> 'a list list list" where
  "numpy_zeros3 z n0 n1 n2 = replicate n0 (replicate n1 (replicate n2 z))"

definition array_set2 ::
  "(int \<Rightarrow> 'a) \<Rightarrow> 'a list list \<Rightarrow> nat \<Rightarrow> nat \<Rightarrow> int \<Rightarrow> py_error + 'a list list" where
  "array_set2 store a i j v =
     (if i < length a \<and> j < length (a ! i)
      then (case float_of_int store v of
              Inl e \<Rightarrow> Inl e
            | Inr x \<Rightarrow> Inr (a[i := (a ! i)[j := x]]))
      else Inl IndexError)"

definition array_set3 ::
  "'a list list list \<Rightarrow> nat \<Rightarrow> nat \<Rightarrow> nat \<Rightarrow> 'a \<Rightarrow> py_error + 'a list list list" where
  "array_set3 a i j k v =
     (if i < length a \<and> j < length (a ! i) \<and> k < length (a ! i ! j)
      then Inr (a[i := (a ! i)[j := (a ! i ! j)[k := v]]])
      else Inl IndexError)"

subsection \<open>row\_to\_row\_step\_size\<close>

definition row_to_row_step_size :: nat where
  "row_to_row_step_size =
     NUMB_PIXEL_DIMENSIONS * PIECE_WIDTH * math_sqrt NUMB_PUZZLE_PIECES"

subsection \<open>build\_pixel\_list\<close>

text \<open>The inner loop, over \<open>j\<close>, and the outer loop, over \<open>i\<close>.\<close>

primrec pixel_dim_loop ::
  "(int \<Rightarrow> 'a) \<Rightarrow> nat \<Rightarrow> int \<Rightarrow> nat list \<Rightarrow> 'a list list \<Rightarrow> py_error + 'a list list" where
  "pixel_dim_loop store i pixel_start [] pixels = Inr pixels"
| "pixel_dim_loop store i pixel_start (j # js) pixels =
     (case array_set2 store pixels i j (pixel_start + int j) of
        Inl e \<Rightarrow> Inl e
      | Inr pixels' \<Rightarrow> pixel_dim_loop store i pixel_start js pixels')"

primrec pixel_row_loop ::
  "(int \<Rightarrow> 'a) \<Rightarrow> int \<Rightarrow> nat \<Rightarrow> nat list \<Rightarrow> 'a list list \<Rightarrow> py_error + 'a list list" where
  "pixel_row_loop store start_value pixel_offset [] pixels = Inr pixels"
| "pixel_row_loop store start_value pixel_offset (i # is) pixels =
     (case pixel_dim_loop store i (start_value + int i * int pixel_offset)
             (py_range 0 NUMB_PIXEL_DIMENSIONS) pixels of
        Inl e \<Rightarrow> Inl e
      | Inr pixels' \<Rightarrow> pixel_row_loop store start_value pixel_offset is pixels')"

definition build_pixel_list ::
  "(int \<Rightarrow> 'a) \<Rightarrow> int \<Rightarrow> bool \<Rightarrow> bool \<Rightarrow> py_error + 'a list list" where
  "build_pixel_list store start_value is_row reverse_list =
     (let pixel_offset = (if is_row then NUMB_PIXEL_DIMENSIONS else row_to_row_step_size);
          pixels = numpy_zeros2 (store 0) PIECE_WIDTH NUMB_PIXEL_DIMENSIONS
      in case pixel_row_loop store start_value pixel_offset (py_range 0 PIECE_WIDTH) pixels of
           Inl e \<Rightarrow> Inl e
         | Inr pixels' \<Rightarrow> Inr (if reverse_list then rev pixels' else pixels'))"

text \<open>
  The start values for which every integer the loops write can be converted: the
  fifteen values \<open>start_value + i * pixel_offset + j\<close>.
\<close>

definition pixel_values_fit :: "int \<Rightarrow> bool \<Rightarrow> bool" where
  "pixel_values_fit start_value is_row =
     (let pixel_offset = (if is_row then NUMB_PIXEL_DIMENSIONS else row_to_row_step_size)
      in list_all (\<lambda>i. list_all (\<lambda>j. float64_fits (start_value + int i * int pixel_offset + int j))
                          (py_range 0 NUMB_PIXEL_DIMENSIONS))
           (py_range 0 PIECE_WIDTH))"

subsection \<open>build\_dummy\_array\<close>

text \<open>
  The three nested loops thread the array and the counter \<open>val\<close>. \<open>shape\<close> is the
  shape numpy records for the array, the extents it was created with.
\<close>

primrec dummy_dim_loop ::
  "(int \<Rightarrow> 'a) \<Rightarrow> nat \<Rightarrow> nat \<Rightarrow> nat list \<Rightarrow> 'a list list list \<times> int
     \<Rightarrow> py_error + 'a list list list \<times> int" where
  "dummy_dim_loop store row' col [] st = Inr st"
| "dummy_dim_loop store row' col (dim' # dims) st =
     (case array_set3 (fst st) row' col dim' (store (snd st)) of
        Inl e \<Rightarrow> Inl e
      | Inr arr \<Rightarrow> dummy_dim_loop store row' col dims (arr, snd st + 1))"

primrec dummy_col_loop ::
  "(int \<Rightarrow> 'a) \<Rightarrow> nat \<times> nat \<times> nat \<Rightarrow> nat \<Rightarrow> nat list \<Rightarrow> 'a list list list \<times> int
     \<Rightarrow> py_error + 'a list list list \<times> int" where
  "dummy_col_loop store shape row' [] st = Inr st"
| "dummy_col_loop store shape row' (col # cols) st =
     (case dummy_dim_loop store row' col (py_range 0 (snd (snd shape))) st of
        Inl e \<Rightarrow> Inl e
      | Inr st' \<Rightarrow> dummy_col_loop store shape row' cols st')"

primrec dummy_row_loop ::
  "(int \<Rightarrow> 'a) \<Rightarrow> nat \<times> nat \<times> nat \<Rightarrow> nat list \<Rightarrow> 'a list list list \<times> int
     \<Rightarrow> py_error + 'a list list list \<times> int" where
  "dummy_row_loop store shape [] st = Inr st"
| "dummy_row_loop store shape (row' # rows) st =
     (case dummy_col_loop store shape row' (py_range 0 (fst (snd shape))) st of
        Inl e \<Rightarrow> Inl e
      | Inr st' \<Rightarrow> dummy_row_loop store shape rows st')"

definition build_dummy_array :: "(int \<Rightarrow> 'a) \<Rightarrow> py_error + 'a list list list" where
  "build_dummy_array store =
     (let piece_width = PIECE_WIDTH;
          numb_pieces = NUMB_PUZZLE_PIECES;
          numb_dim = NUMB_PIXEL_DIMENSIONS;
          shape = (piece_width * math_sqrt numb_pieces, piece_width * math_sqrt numb_pieces,
                   numb_dim);
          arr = numpy_zeros3 (store 0) (fst shape) (fst (snd shape)) (snd (snd shape));
          val = TEST_ARRAY_FIRST_PIXEL_VALUE
      in case dummy_row_loop store shape (py_range 0 (fst shape)) (arr, val) of
           Inl e \<Rightarrow> Inl e
         | Inr st \<Rightarrow> Inr (fst st))"

section \<open>Puzzle construction (puzzle\_importer.Puzzle)\<close>

text \<open>
  \<open>test_puzzle_creation\<close> constructs a \<open>Puzzle\<close> and asserts on its attributes. The
  class itself lives in \<open>hammoudeh_puzzle_solver/puzzle_importer.py\<close>, which is not
  among the sources at hand, so the constructor is modelled from the specification
  (sections 3, 6 and 7) and the assertions are taken from the test.
\<close>

datatype solver_error = ConfigurationError | DataError | AlgorithmInvariantError

record PuzzlePiece =
  width :: nat
  priv_orig_puzzle_id :: int
  priv_assigned_puzzle_id :: "int option"
  rotation :: "nat option"
  priv_orig_loc :: "nat \<times> nat"

record Puzzle =
  priv_id :: int
  priv_piece_width :: nat
  priv_img_height :: nat
  priv_img_width :: nat
  priv_grid_size :: "nat \<times> nat"
  priv_pieces :: "PuzzlePiece list"

text \<open>
  Modelled from the spec: \<open>make_pieces\<close>, the slicing of the image into pieces, absent
  from the sources. The spec has the pieces produced in row-major grid order, each of the
  puzzle's piece width, with its original grid location, unassigned and without rotation.
\<close>

definition make_pieces :: "int \<Rightarrow> nat \<Rightarrow> nat \<times> nat \<Rightarrow> PuzzlePiece list" where
  "make_pieces id_number' piece_width grid_size =
     concat (map (\<lambda>r. map (\<lambda>c.
         \<lparr> width = piece_width, priv_orig_puzzle_id = id_number',
           priv_assigned_puzzle_id = None, rotation = None, priv_orig_loc = (r, c) \<rparr>)
       (py_range 0 (snd grid_size))) (py_range 0 (fst grid_size)))"

text \<open>
  Modelled from the spec: the constructor of \<open>Puzzle\<close>, absent from the sources. It is
  given the decoded image's height and width in pixels and the configured piece width.
  The spec makes an invalid piece width, a height or width that the piece width does not
  divide, and a puzzle of no piece configuration errors, and has the grid size be
  (height / piece width, width / piece width); the pieces are made last.
\<close>

definition Puzzle_init :: "int \<Rightarrow> nat \<Rightarrow> nat \<Rightarrow> nat \<Rightarrow> solver_error + Puzzle" where
  "Puzzle_init id_number' img_height img_width piece_width =
     (if piece_width = 0 then Inl ConfigurationError
      else if img_height mod piece_width \<noteq> 0 \<or> img_width mod piece_width \<noteq> 0
        then Inl ConfigurationError
      else
        (let grid_size = (img_height div piece_width, img_width div piece_width)
         in if fst grid_size * snd grid_size = 0 then Inl ConfigurationError
            else Inr \<lparr> priv_id = id_number', priv_piece_width = piece_width,
                       priv_img_height = img_height, priv_img_width = img_width,
                       priv_grid_size = grid_size,
                       priv_pieces = make_pieces id_number' piece_width grid_size \<rparr>))"

text \<open>
  The assertions of \<open>test_puzzle_creation\<close> on the puzzle it built with the image
  identifier 999, up to the ones on each piece's width, puzzle identifiers and rotation.
  (The file name and the round trip through the piece's location setter are left out:
  they involve the image file and methods of \<open>PuzzlePiece\<close>.) The quotients are exact,
  so \<open>/\<close> is \<open>div\<close> whichever division the interpreter gives it.
\<close>

definition test_puzzle_creation_asserts :: "Puzzle \<Rightarrow> bool" where
  "test_puzzle_creation_asserts puzzle =
     (priv_id puzzle = 999
      \<and> priv_piece_width puzzle = PIECE_WIDTH
      \<and> priv_img_height puzzle = TEST_IMAGE_HEIGHT
      \<and> priv_img_width puzzle = TEST_IMAGE_WIDTH
      \<and> priv_grid_size puzzle =
          (TEST_IMAGE_HEIGHT div PIECE_WIDTH, TEST_IMAGE_WIDTH div PIECE_WIDTH)
      \<and> length (priv_pieces puzzle) =
          (TEST_IMAGE_HEIGHT div PIECE_WIDTH) * (TEST_IMAGE_WIDTH div PIECE_WIDTH)
      \<and> list_all (\<lambda>piece. width piece = PIECE_WIDTH
                      \<and> priv_orig_puzzle_id piece = 999
                      \<and> priv_assigned_puzzle_id piece = None
                      \<and> rotation piece = None) (priv_pieces puzzle))"

section \<open>Properties of the helper classes\<close>

subsection \<open>The constructor of NextPieceToPlace\<close>

text \<open>
  C5. The constructor stores its eight arguments, unchanged, in the eight public
  attributes, and sets both running aggregates of the board-abandon decision, the link
  count and the total compatibility difference, to zero.
\<close>

theorem NextPieceToPlace_init_fields:
  "NextPieceToPlace.puzzle_id (NextPieceToPlace_init b l p ps n ns c bb) = b
   \<and> open_slot_location (NextPieceToPlace_init b l p ps n ns c bb) = l
   \<and> next_piece_id (NextPieceToPlace_init b l p ps n ns c bb) = p
   \<and> next_piece_side (NextPieceToPlace_init b l p ps n ns c bb) = ps
   \<and> neighbor_piece_id (NextPieceToPlace_init b l p ps n ns c bb) = n
   \<and> neighbor_piece_side (NextPieceToPlace_init b l p ps n ns c bb) = ns
   \<and> mutual_compatibility (NextPieceToPlace_init b l p ps n ns c bb) = c
   \<and> is_best_buddy (NextPieceToPlace_init b l p ps n ns c bb) = bb
   \<and> priv_numb_avg_placed_unplaced_links (NextPieceToPlace_init b l p ps n ns c bb) = 0
   \<and> priv_total_placed_unplaced_compatibility_diff (NextPieceToPlace_init b l p ps n ns c bb) = 0"
  by (simp add: NextPieceToPlace_init_def)

subsection \<open>NeighborSidePair\<close>

text \<open>
  C9. Reading \<open>id_number\<close> and \<open>side\<close> of a freshly constructed pair gives back the
  two constructor arguments, and no sequence of the class's operations changes the
  object, so the reads give the same two values afterwards.
\<close>

theorem NeighborSidePair_round_trip:
  "fst (id_number (NeighborSidePair_init n s)) = n
   \<and> fst (side (NeighborSidePair_init n s)) = s
   \<and> fold pair_step ops (NeighborSidePair_init n s) = NeighborSidePair_init n s
   \<and> fst (id_number (fold pair_step ops (NeighborSidePair_init n s))) = n
   \<and> fst (side (fold pair_step ops (NeighborSidePair_init n s))) = s"
proof -
  have step: "pair_step x p = p" for x and p :: "'a NeighborSidePair"
    by (cases x) (simp_all add: id_number_def side_def)
  have run: "fold pair_step ops p = p" for p :: "'a NeighborSidePair"
    by (induction ops) (simp_all add: step)
  show ?thesis
    by (simp add: run id_number_def side_def NeighborSidePair_init_def)
qed

subsection \<open>The location property\<close>

lemma location_step_fields:
  "row (location_step x self) = (case x of SetRow v \<Rightarrow> v | _ \<Rightarrow> row self)"
  "column (location_step x self) = (case x of SetColumn v \<Rightarrow> v | _ \<Rightarrow> column self)"
  by (cases x; simp add: key_def Let_def split: option.splits)+

text \<open>
  C10. \<open>location\<close> is the pair of the current \<open>row\<close> and \<open>column\<close>, whatever was
  done to the object before, key reads included: an assignment to \<open>row\<close> or
  \<open>column\<close> shows in the next read, and neither \<open>puzzle_id\<close> nor a key read changes
  it.
\<close>

theorem location_not_cached:
  "location (location_run ops self) = (row (location_run ops self), column (location_run ops self))
   \<and> location (location_step (SetRow r) (location_run ops self)) = (r, column (location_run ops self))
   \<and> location (location_step (SetColumn c) (location_run ops self)) = (row (location_run ops self), c)
   \<and> location (location_step (SetPuzzleId p) (location_run ops self)) = location (location_run ops self)
   \<and> location (location_step GetKey (location_run ops self)) = location (location_run ops self)"
  by (simp add: location_def key_def Let_def split: option.splits)

subsection \<open>Decimal numerals determine the integer\<close>

declare str_nat.simps [simp del]

lemma below_ten_cases:
  "d < 10 \<Longrightarrow> d = 0 \<or> d = 1 \<or> d = 2 \<or> d = 3 \<or> d = 4 \<or> d = 5 \<or> d = 6 \<or> d = 7 \<or> d = 8 \<or> d = (9::nat)"
  by arith

lemma digit_char_inj:
  assumes "a < 10" and "b < 10" and "digit_char a = digit_char b"
  shows "a = b"
  using below_ten_cases [OF assms(1)] below_ten_cases [OF assms(2)] assms(3)
  by (auto simp: digit_char_def)

lemma digit_char_plain:
  assumes "d < 10"
  shows "digit_char d \<noteq> CHR ''_'' \<and> digit_char d \<noteq> CHR ''-''"
  using below_ten_cases [OF assms] by (auto simp: digit_char_def)

lemma str_nat_small: "n < 10 \<Longrightarrow> str_nat n = [digit_char n]"
  by (subst str_nat.simps) simp

lemma str_nat_large:
  "\<not> n < 10 \<Longrightarrow> str_nat n = str_nat (n div 10) @ [digit_char (n mod 10)]"
  by (subst str_nat.simps) simp

lemma str_nat_nonempty: "str_nat n \<noteq> []"
  by (cases "n < 10") (simp_all add: str_nat_small str_nat_large)

lemma str_nat_plain:
  "c \<in> set (str_nat n) \<Longrightarrow> c \<noteq> CHR ''_'' \<and> c \<noteq> CHR ''-''"
proof (induction n rule: str_nat.induct)
  case (1 n)
  show ?case
  proof (cases "n < 10")
    case True
    with "1.prems" show ?thesis
      using digit_char_plain [of n] by (simp add: str_nat_small)
  next
    case False
    with "1.prems" "1.IH" show ?thesis
      using digit_char_plain [of "n mod 10"] by (auto simp: str_nat_large)
  qed
qed

lemma str_nat_inj: "str_nat n = str_nat m \<Longrightarrow> n = m"
proof (induction n arbitrary: m rule: str_nat.induct)
  case (1 n)
  show ?case
  proof (cases "n < 10")
    case n_small: True
    show ?thesis
    proof (cases "m < 10")
      case True
      with n_small "1.prems" show ?thesis
        by (simp add: str_nat_small digit_char_inj)
    next
      case False
      with n_small "1.prems" str_nat_nonempty [of "m div 10"] show ?thesis
        by (simp add: str_nat_small str_nat_large)
    qed
  next
    case n_large: False
    show ?thesis
    proof (cases "m < 10")
      case True
      with n_large "1.prems" str_nat_nonempty [of "n div 10"] show ?thesis
        by (simp add: str_nat_small str_nat_large)
    next
      case False
      with n_large "1.prems" have
        heads: "str_nat (n div 10) = str_nat (m div 10)" and
        lasts: "digit_char (n mod 10) = digit_char (m mod 10)"
        by (simp_all add: str_nat_large)
      from "1.IH" [OF n_large heads] have "n div 10 = m div 10" .
      moreover from lasts have "n mod 10 = m mod 10"
        by (intro digit_char_inj) simp_all
      ultimately show ?thesis
        by (metis div_mult_mod_eq)
    qed
  qed
qed

lemma str_int_plain: "CHR ''_'' \<notin> set (str_int i)"
  using str_nat_plain by (auto simp: str_int_def)

lemma str_int_inj: "str_int i = str_int j \<Longrightarrow> i = j"
proof -
  assume eq: "str_int i = str_int j"
  have no_minus: "str_nat n \<noteq> CHR ''-'' # s" for n s
    using str_nat_plain [of "CHR ''-''" n] by (cases "str_nat n") auto
  show ?thesis
  proof (cases "i < 0")
    case i_neg: True
    show ?thesis
    proof (cases "j < 0")
      case True
      with i_neg eq have "str_nat (nat (- i)) = str_nat (nat (- j))"
        by (simp add: str_int_def)
      then have "nat (- i) = nat (- j)" by (rule str_nat_inj)
      with i_neg True show ?thesis by simp
    next
      case False
      with i_neg eq no_minus [of "nat j" "str_nat (nat (- i))"] show ?thesis
        by (simp add: str_int_def)
    qed
  next
    case i_pos: False
    show ?thesis
    proof (cases "j < 0")
      case True
      with i_pos eq no_minus [of "nat i" "str_nat (nat (- j))"] show ?thesis
        by (simp add: str_int_def)
    next
      case False
      with i_pos eq have "str_nat (nat i) = str_nat (nat j)"
        by (simp add: str_int_def)
      then have "nat i = nat j" by (rule str_nat_inj)
      with i_pos False show ?thesis by simp
    qed
  qed
qed

lemma split_at_separator:
  assumes "u \<notin> set a" and "u \<notin> set b" and "a @ u # r = b @ u # s"
  shows "a = b \<and> r = s"
  using assms
proof (induction a arbitrary: b)
  case Nil
  then show ?case by (cases b) auto
next
  case (Cons x a)
  then show ?case by (cases b) auto
qed

lemma key_text_inj:
  assumes "str_int p @ ''_'' @ str_int r @ ''_'' @ str_int c
           = str_int p' @ ''_'' @ str_int r' @ ''_'' @ str_int c'"
  shows "p = p' \<and> r = r' \<and> c = c'"
proof -
  from assms have
    "str_int p @ CHR ''_'' # (str_int r @ CHR ''_'' # str_int c)
     = str_int p' @ CHR ''_'' # (str_int r' @ CHR ''_'' # str_int c')"
    by simp
  from split_at_separator [OF str_int_plain str_int_plain this]
  have first: "str_int p = str_int p'"
    and rest: "str_int r @ CHR ''_'' # str_int c = str_int r' @ CHR ''_'' # str_int c'"
    by simp_all
  from split_at_separator [OF str_int_plain str_int_plain rest]
  have "str_int r = str_int r'" and "str_int c = str_int c'"
    by simp_all
  with first show ?thesis
    by (simp add: str_int_inj)
qed

lemma str_int_examples:
  "str_int 1 = ''1''" "str_int 2 = ''2''" "str_int 3 = ''3''" "str_int 5 = ''5''"
  by (simp_all add: str_int_def str_nat_small digit_char_def)

subsection \<open>The key is memoized\<close>

lemma key_cached: "priv_key self = Some k \<Longrightarrow> key self = (k, self)"
  by (simp add: key_def)

lemma key_sets_cache: "priv_key (snd (key self)) = Some (fst (key self))"
  by (simp add: key_def Let_def split: option.splits)

lemma location_step_keeps_cache:
  "priv_key self = Some k \<Longrightarrow> priv_key (location_step x self) = Some k"
  by (cases x) (simp_all add: key_def)

lemma location_run_keeps_cache:
  "priv_key self = Some k \<Longrightarrow> priv_key (location_run ops self) = Some k"
  unfolding location_run_def
  by (induction ops arbitrary: self) (simp_all add: location_step_keeps_cache)

text \<open>
  C8. Once the key has been read, every later read returns the same string, whatever
  assignments to \<open>puzzle_id\<close>, \<open>row\<close> and \<open>column\<close> and whatever reads happen in
  between; and a cached key, once set, is changed by no operation.
\<close>

theorem key_memoized:
  "fst (key (location_run ops (snd (key self)))) = fst (key self)
   \<and> (priv_key self = Some k \<longrightarrow>
        priv_key (location_run ops self) = Some k \<and> fst (key (location_run ops self)) = k)"
  using location_run_keeps_cache [OF key_sets_cache, of ops self]
  by (auto simp: key_cached location_run_keeps_cache)

theorem key_memoized_witness:
  "fst (key (location_run [SetRow 7, GetLocation, SetPuzzleId 4, GetKey, SetColumn 9]
               (snd (key (PuzzleLocation_init 1 2 3))))) = ''1_2_3''
   \<and> priv_key (snd (key (PuzzleLocation_init 1 2 3))) = Some ''1_2_3''
   \<and> priv_key (location_run [SetRow 7, SetColumn 9, GetKey] (snd (key (PuzzleLocation_init 1 2 3))))
        = Some ''1_2_3''"
  using key_memoized [of "[SetRow 7, GetLocation, SetPuzzleId 4, GetKey, SetColumn 9]"
      "PuzzleLocation_init 1 2 3" "''1_2_3''"]
    key_memoized [of "[SetRow 7, SetColumn 9, GetKey]" "snd (key (PuzzleLocation_init 1 2 3))" "''1_2_3''"]
  by (simp add: key_def PuzzleLocation_init_def str_int_examples Let_def location_run_def)

subsection \<open>The key and the triple\<close>

lemma key_of_current:
  "key_is_current self \<Longrightarrow>
   fst (key self) = str_int (puzzle_id self) @ ''_'' @ str_int (row self) @ ''_''
                      @ str_int (column self)"
  by (auto simp: key_is_current_def key_def Let_def split: option.splits)

lemma key_is_current_init: "key_is_current (PuzzleLocation_init p r c)"
  by (simp add: key_is_current_def PuzzleLocation_init_def)

lemma key_is_current_read:
  "is_read x \<Longrightarrow> key_is_current self \<Longrightarrow> key_is_current (location_step x self)"
  by (cases x) (auto simp: key_is_current_def key_def Let_def split: option.splits)

lemma key_is_current_reads:
  "list_all is_read ops \<Longrightarrow> key_is_current self \<Longrightarrow> key_is_current (location_run ops self)"
  unfolding location_run_def
  by (induction ops arbitrary: self) (simp_all add: key_is_current_read)

text \<open>
  C3, as amended. For two locations whose key is current (not read yet, or read and no
  field assigned since), the keys are equal exactly when the triples of puzzle
  identifier, row and column are equal. A location that has only been read since its
  construction has a current key. Reading the key twice gives the same string.
\<close>

theorem key_identifies_triple:
  "(key_is_current a \<and> key_is_current b \<longrightarrow>
      (fst (key a) = fst (key b)
       \<longleftrightarrow> (puzzle_id a, row a, column a) = (puzzle_id b, row b, column b)))
   \<and> (list_all is_read ops \<longrightarrow> key_is_current (location_run ops (PuzzleLocation_init p r c)))
   \<and> fst (key (snd (key a))) = fst (key a)"
proof (intro conjI impI)
  assume cur: "key_is_current a \<and> key_is_current b"
  show "fst (key a) = fst (key b)
        \<longleftrightarrow> (puzzle_id a, row a, column a) = (puzzle_id b, row b, column b)"
  proof
    assume "fst (key a) = fst (key b)"
    with cur have
      "str_int (puzzle_id a) @ ''_'' @ str_int (row a) @ ''_'' @ str_int (column a)
       = str_int (puzzle_id b) @ ''_'' @ str_int (row b) @ ''_'' @ str_int (column b)"
      by (simp add: key_of_current)
    from key_text_inj [OF this]
    show "(puzzle_id a, row a, column a) = (puzzle_id b, row b, column b)" by simp
  next
    assume "(puzzle_id a, row a, column a) = (puzzle_id b, row b, column b)"
    with cur show "fst (key a) = fst (key b)"
      by (simp add: key_of_current)
  qed
next
  assume "list_all is_read ops"
  then show "key_is_current (location_run ops (PuzzleLocation_init p r c))"
    by (simp add: key_is_current_reads key_is_current_init)
next
  show "fst (key (snd (key a))) = fst (key a)"
    by (simp add: key_def Let_def split: option.splits)
qed

theorem key_identifies_triple_witness:
  "key_is_current (snd (key (PuzzleLocation_init 1 2 3)))
   \<and> key_is_current (PuzzleLocation_init 1 2 3)
   \<and> key_is_current (PuzzleLocation_init 1 5 3)
   \<and> list_all is_read [GetKey, GetLocation, GetKey]
   \<and> key_is_current (location_run [GetKey, GetLocation, GetKey] (PuzzleLocation_init 1 2 3))
   \<and> fst (key (snd (key (PuzzleLocation_init 1 2 3)))) = fst (key (PuzzleLocation_init 1 2 3))
   \<and> fst (key (PuzzleLocation_init 1 2 3)) = ''1_2_3''
   \<and> fst (key (PuzzleLocation_init 1 5 3)) \<noteq> fst (key (PuzzleLocation_init 1 2 3))"
  using key_identifies_triple [of "snd (key (PuzzleLocation_init 1 2 3))"
      "PuzzleLocation_init 1 2 3" "[GetKey, GetLocation, GetKey]" 1 2 3]
    key_identifies_triple [of "PuzzleLocation_init 1 5 3"
      "PuzzleLocation_init 1 2 3" "[GetKey, GetLocation, GetKey]" 1 2 3]
  by (simp add: key_is_current_def key_def Let_def PuzzleLocation_init_def str_int_examples)

text \<open>
  C3 as stated fails on an object whose row was assigned after its key was read: it has
  the triple of a freshly built location, and another key.
\<close>

theorem key_identifies_triple_counterexample:
  "(puzzle_id (location_step (SetRow 5) (snd (key (PuzzleLocation_init 1 2 3)))),
    row (location_step (SetRow 5) (snd (key (PuzzleLocation_init 1 2 3)))),
    column (location_step (SetRow 5) (snd (key (PuzzleLocation_init 1 2 3)))))
   = (puzzle_id (PuzzleLocation_init 1 5 3), row (PuzzleLocation_init 1 5 3),
      column (PuzzleLocation_init 1 5 3))
   \<and> fst (key (location_step (SetRow 5) (snd (key (PuzzleLocation_init 1 2 3))))) = ''1_2_3''
   \<and> fst (key (PuzzleLocation_init 1 5 3)) = ''1_5_3''
   \<and> fst (key (location_step (SetRow 5) (snd (key (PuzzleLocation_init 1 2 3)))))
       \<noteq> fst (key (PuzzleLocation_init 1 5 3))"
  by (simp add: key_def Let_def PuzzleLocation_init_def str_int_examples)

subsection \<open>Equality of locations\<close>

text \<open>
  C4, as amended. A location is equal to itself, and two locations constructed one after
  the other from the same triple are not equal, although the two objects hold the same
  field values.
\<close>

theorem separate_objects_not_equal:
  "object_eq (fst (PuzzleLocation_new h p r c)) (fst (PuzzleLocation_new h p r c))
   \<and> \<not> object_eq (fst (PuzzleLocation_new h p r c))
          (fst (PuzzleLocation_new (snd (PuzzleLocation_new h p r c)) p r c))
   \<and> snd (PuzzleLocation_new (snd (PuzzleLocation_new h p r c)) p r c)
         ! fst (PuzzleLocation_new h p r c)
       = PuzzleLocation_init p r c
   \<and> snd (PuzzleLocation_new (snd (PuzzleLocation_new h p r c)) p r c)
         ! fst (PuzzleLocation_new (snd (PuzzleLocation_new h p r c)) p r c)
       = PuzzleLocation_init p r c"
  by (simp add: object_eq_def PuzzleLocation_new_def nth_append)

text \<open>
  C4 as stated fails on two constructions from the triple (1, 2, 3).
\<close>

theorem separate_objects_not_equal_counterexample:
  "\<not> object_eq (fst (PuzzleLocation_new [] 1 2 3))
        (fst (PuzzleLocation_new (snd (PuzzleLocation_new [] 1 2 3)) 1 2 3))"
  by (simp add: object_eq_def PuzzleLocation_new_def)

section \<open>Properties of the reference builders\<close>

subsection \<open>The step from one row to the next\<close>

lemma math_sqrt_nine: "math_sqrt 9 = 3"
  by code_simp

lemma math_sqrt_pieces: "math_sqrt NUMB_PUZZLE_PIECES = 3"
  unfolding NUMB_PUZZLE_PIECES_def by (rule math_sqrt_nine)

lemma row_to_row_step_size_value: "row_to_row_step_size = 45"
  by (simp add: row_to_row_step_size_def math_sqrt_pieces NUMB_PIXEL_DIMENSIONS_def PIECE_WIDTH_def)

subsection \<open>The loops of build\_pixel\_list\<close>

lemma take_Suc_update:
  "k < length xs \<Longrightarrow> take (Suc k) (xs[k := v]) = take k xs @ [v]"
  by (simp add: take_Suc_conv_app_nth)

lemma pixel_dim_loop_segment:
  assumes "i < length pixels" and "length (pixels ! i) = m" and "k \<le> m"
  shows "pixel_dim_loop store i ps [k..<m] pixels
         = (if list_all (\<lambda>j. float64_fits (ps + int j)) [k..<m]
            then Inr (pixels[i := take k (pixels ! i) @ map (\<lambda>j. store (ps + int j)) [k..<m]])
            else Inl OverflowError)"
  using assms
proof (induction "m - k" arbitrary: k pixels)
  case 0
  then show ?case by simp
next
  case (Suc n)
  then have k: "k < m" by simp
  show ?case
  proof (cases "float64_fits (ps + int k)")
    case False
    with Suc.prems k have "array_set2 store pixels i k (ps + int k) = Inl OverflowError"
      by (simp add: array_set2_def float_of_int_def)
    with False k show ?thesis
      by (simp add: upt_conv_Cons)
  next
    case True
    let ?v = "store (ps + int k)"
    let ?pixels = "pixels[i := (pixels ! i)[k := ?v]]"
    from True Suc.prems k have set: "array_set2 store pixels i k (ps + int k) = Inr ?pixels"
      by (simp add: array_set2_def float_of_int_def)
    have "pixel_dim_loop store i ps [Suc k..<m] ?pixels
          = (if list_all (\<lambda>j. float64_fits (ps + int j)) [Suc k..<m]
             then Inr (?pixels[i := take (Suc k) (?pixels ! i)
                                   @ map (\<lambda>j. store (ps + int j)) [Suc k..<m]])
             else Inl OverflowError)"
      using Suc.hyps(2) Suc.prems k by (intro Suc.hyps(1)) simp_all
    also have "?pixels ! i = (pixels ! i)[k := ?v]"
      using Suc.prems by simp
    also have "take (Suc k) ((pixels ! i)[k := ?v]) = take k (pixels ! i) @ [?v]"
      using Suc.prems k by (simp add: take_Suc_update)
    finally show ?thesis
      using True k set by (simp add: upt_conv_Cons)
  qed
qed

lemma pixel_dim_loop_row:
  assumes "i < length pixels" and "length (pixels ! i) = m"
  shows "pixel_dim_loop store i ps (py_range 0 m) pixels
         = (if list_all (\<lambda>j. float64_fits (ps + int j)) [0..<m]
            then Inr (pixels[i := map (\<lambda>j. store (ps + int j)) [0..<m]])
            else Inl OverflowError)"
  using pixel_dim_loop_segment [OF assms, of 0 store ps] by (simp add: py_range_def)

lemma pixel_row_loop_segment:
  assumes "length pixels = n" and "\<forall>i<n. length (pixels ! i) = NUMB_PIXEL_DIMENSIONS"
    and "k \<le> n"
  shows "pixel_row_loop store s off [k..<n] pixels
         = (if list_all (\<lambda>i. list_all (\<lambda>j. float64_fits (s + int i * int off + int j))
                                [0..<NUMB_PIXEL_DIMENSIONS]) [k..<n]
            then Inr (take k pixels @
                map (\<lambda>i. map (\<lambda>j. store (s + int i * int off + int j)) [0..<NUMB_PIXEL_DIMENSIONS])
                  [k..<n])
            else Inl OverflowError)"
  using assms
proof (induction "n - k" arbitrary: k pixels)
  case 0
  then show ?case by simp
next
  case (Suc d)
  then have k: "k < n" by simp
  let ?fits = "\<lambda>i. list_all (\<lambda>j. float64_fits (s + int i * int off + int j))
                       [0..<NUMB_PIXEL_DIMENSIONS]"
  have inner: "pixel_dim_loop store k (s + int k * int off) (py_range 0 NUMB_PIXEL_DIMENSIONS) pixels
               = (if ?fits k
                  then Inr (pixels[k := map (\<lambda>j. store (s + int k * int off + int j))
                                          [0..<NUMB_PIXEL_DIMENSIONS]])
                  else Inl OverflowError)"
    using Suc.prems k by (intro pixel_dim_loop_row) simp_all
  show ?case
  proof (cases "?fits k")
    case False
    with inner k show ?thesis
      by (simp add: upt_conv_Cons)
  next
    case True
    let ?row = "map (\<lambda>j. store (s + int k * int off + int j)) [0..<NUMB_PIXEL_DIMENSIONS]"
    let ?pixels = "pixels[k := ?row]"
    have lens: "\<forall>i<n. length (?pixels ! i) = NUMB_PIXEL_DIMENSIONS"
      using Suc.prems k by (simp add: nth_list_update)
    have "pixel_row_loop store s off [Suc k..<n] ?pixels
          = (if list_all ?fits [Suc k..<n]
             then Inr (take (Suc k) ?pixels @
                 map (\<lambda>i. map (\<lambda>j. store (s + int i * int off + int j))
                             [0..<NUMB_PIXEL_DIMENSIONS]) [Suc k..<n])
             else Inl OverflowError)"
      using Suc.hyps(2) Suc.prems(1) lens k by (intro Suc.hyps(1)) simp_all
    also have "take (Suc k) ?pixels = take k pixels @ [?row]"
      using Suc.prems k by (simp add: take_Suc_update)
    finally show ?thesis
      using True k inner by (simp add: upt_conv_Cons)
  qed
qed

lemma build_pixel_list_value:
  "build_pixel_list store s is_row reverse_list
   = (if pixel_values_fit s is_row
      then Inr ((if reverse_list then rev else id)
             (map (\<lambda>i. map (\<lambda>j. store (s + int i * (if is_row then 3 else 45) + int j)) [0..<3])
                [0..<5]))
      else Inl OverflowError)"
proof -
  let ?off = "if is_row then NUMB_PIXEL_DIMENSIONS else row_to_row_step_size"
  have "pixel_row_loop store s ?off [0..<PIECE_WIDTH]
          (numpy_zeros2 (store 0) PIECE_WIDTH NUMB_PIXEL_DIMENSIONS)
        = (if list_all (\<lambda>i. list_all (\<lambda>j. float64_fits (s + int i * int ?off + int j))
                                [0..<NUMB_PIXEL_DIMENSIONS]) [0..<PIECE_WIDTH]
           then Inr (take 0 (numpy_zeros2 (store 0) PIECE_WIDTH NUMB_PIXEL_DIMENSIONS) @
               map (\<lambda>i. map (\<lambda>j. store (s + int i * int ?off + int j)) [0..<NUMB_PIXEL_DIMENSIONS])
                 [0..<PIECE_WIDTH])
           else Inl OverflowError)"
    by (intro pixel_row_loop_segment) (simp_all add: numpy_zeros2_def)
  then have loop: "pixel_row_loop store s ?off (py_range 0 PIECE_WIDTH)
          (numpy_zeros2 (store 0) PIECE_WIDTH NUMB_PIXEL_DIMENSIONS)
        = (if pixel_values_fit s is_row
           then Inr (map (\<lambda>i. map (\<lambda>j. store (s + int i * int ?off + int j))
                                 [0..<NUMB_PIXEL_DIMENSIONS]) [0..<PIECE_WIDTH])
           else Inl OverflowError)"
    by (simp add: pixel_values_fit_def py_range_def Let_def)
  have "build_pixel_list store s is_row reverse_list
        = (case (if pixel_values_fit s is_row
                 then Inr (map (\<lambda>i. map (\<lambda>j. store (s + int i * int ?off + int j))
                                       [0..<NUMB_PIXEL_DIMENSIONS]) [0..<PIECE_WIDTH])
                 else Inl OverflowError) of
             Inl e \<Rightarrow> Inl e
           | Inr pixels' \<Rightarrow> Inr (if reverse_list then rev pixels' else pixels'))"
    by (simp only: build_pixel_list_def Let_def loop)
  then show ?thesis
    by (simp add: row_to_row_step_size_value NUMB_PIXEL_DIMENSIONS_def PIECE_WIDTH_def
        del: upt_Suc)
qed

lemma float64_fits_small: "\<bar>v\<bar> \<le> 1000 \<Longrightarrow> float64_fits v"
proof -
  assume "\<bar>v\<bar> \<le> 1000"
  moreover have "(1000::int) < 2 ^ 1024 - 2 ^ 970"
    by simp
  ultimately show ?thesis
    unfolding float64_fits_def by (rule le_less_trans)
qed

lemma float64_fits_huge: "\<not> float64_fits (10 ^ 400)"
  by (simp add: float64_fits_def)

lemma pixel_values_fit_iff:
  "pixel_values_fit s is_row
   \<longleftrightarrow> (\<forall>i<5. \<forall>j<3. float64_fits (s + int i * (if is_row then 3 else 45) + int j))"
  by (auto simp: pixel_values_fit_def Let_def py_range_def PIECE_WIDTH_def
      NUMB_PIXEL_DIMENSIONS_def row_to_row_step_size_value list_all_iff simp del: upt_Suc)

lemma overflowing_start_value: "\<not> pixel_values_fit (10 ^ 400) is_row"
proof
  assume "pixel_values_fit (10 ^ 400) is_row"
  then have "\<forall>i<5. \<forall>j<3. float64_fits (10 ^ 400 + int i * (if is_row then 3 else 45) + int j)"
    unfolding pixel_values_fit_iff .
  from this [rule_format, of 0 0] have "float64_fits (10 ^ 400)"
    by simp
  with float64_fits_huge show False ..
qed

lemma small_start_values_fit:
  assumes "\<bar>s\<bar> \<le> 800"
  shows "pixel_values_fit s is_row"
  unfolding pixel_values_fit_iff
proof (intro allI impI)
  fix i j :: nat
  assume "i < 5" and "j < 3"
  with assms have "\<bar>s + int i * (if is_row then 3 else 45) + int j\<bar> \<le> 1000"
    by (cases is_row) simp_all
  then show "float64_fits (s + int i * (if is_row then 3 else 45) + int j)"
    by (rule float64_fits_small)
qed

lemma zero_start_value: "pixel_values_fit 0 is_row"
  by (rule small_start_values_fit) simp

text \<open>
  C1, as amended. For every start value and row flag for which the fifteen integers the
  loops write can be converted to a float, the builder returns, and what it returns with
  \<open>reverse_list\<close> set is the reverse of what it returns without. For every other start
  value both calls raise \<open>OverflowError\<close>.
\<close>

theorem build_pixel_list_reversed:
  "(pixel_values_fit start_value is_row \<longrightarrow>
      (\<exists>pixels. build_pixel_list store start_value is_row False = Inr pixels
         \<and> build_pixel_list store start_value is_row True = Inr (rev pixels)))
   \<and> (\<not> pixel_values_fit start_value is_row \<longrightarrow>
        build_pixel_list store start_value is_row False = Inl OverflowError
        \<and> build_pixel_list store start_value is_row True = Inl OverflowError)"
  by (simp add: build_pixel_list_value)

theorem build_pixel_list_reversed_witness:
  "pixel_values_fit 0 True
   \<and> build_pixel_list real_of_int 0 True True
       = Inr (rev (projr (build_pixel_list real_of_int 0 True False)))
   \<and> \<not> pixel_values_fit (10 ^ 400) True
   \<and> build_pixel_list real_of_int (10 ^ 400) True True = Inl OverflowError"
proof -
  have fit: "pixel_values_fit 0 True"
    by (rule zero_start_value)
  have unfit: "\<not> pixel_values_fit (10 ^ 400) True"
    by (rule overflowing_start_value)
  from build_pixel_list_reversed [of 0 True real_of_int] fit obtain pixels where
    "build_pixel_list real_of_int 0 True False = Inr pixels"
    "build_pixel_list real_of_int 0 True True = Inr (rev pixels)"
    by blast
  then have "build_pixel_list real_of_int 0 True True
             = Inr (rev (projr (build_pixel_list real_of_int 0 True False)))"
    by (simp only: sum.sel)
  moreover from build_pixel_list_reversed [of "10 ^ 400" True real_of_int] unfit
  have "build_pixel_list real_of_int (10 ^ 400) True True = Inl OverflowError"
    by blast
  ultimately show ?thesis
    using fit unfit by blast
qed

text \<open>
  C1 as stated fails at the start value \<open>10 ^ 400\<close>: neither call returns a sequence.
\<close>

theorem build_pixel_list_reversed_counterexample:
  "build_pixel_list real_of_int (10 ^ 400) True False = Inl OverflowError
   \<and> build_pixel_list real_of_int (10 ^ 400) True True = Inl OverflowError"
  by (simp only: build_pixel_list_value overflowing_start_value if_False simp_thms)

text \<open>
  C7, as amended. For every start value and both flags, if the fifteen integers the loops
  write can be converted to a float, the builder returns an array of \<open>PIECE_WIDTH\<close> = 5
  pixels, each of \<open>NUMB_PIXEL_DIMENSIONS\<close> = 3 values; otherwise it raises
  \<open>OverflowError\<close>.
\<close>

theorem build_pixel_list_shape:
  "(pixel_values_fit start_value is_row \<longrightarrow>
      (\<exists>pixels. build_pixel_list store start_value is_row reverse_list = Inr pixels
         \<and> length pixels = PIECE_WIDTH
         \<and> map length pixels = replicate PIECE_WIDTH NUMB_PIXEL_DIMENSIONS))
   \<and> (\<not> pixel_values_fit start_value is_row \<longrightarrow>
        build_pixel_list store start_value is_row reverse_list = Inl OverflowError)
   \<and> PIECE_WIDTH = 5 \<and> NUMB_PIXEL_DIMENSIONS = 3"
  by (simp add: build_pixel_list_value PIECE_WIDTH_def NUMB_PIXEL_DIMENSIONS_def
      rev_map comp_def map_replicate_const del: upt_Suc)

theorem build_pixel_list_shape_witness:
  "pixel_values_fit 0 False
   \<and> map length (projr (build_pixel_list real_of_int 0 False True)) = [3, 3, 3, 3, 3]
   \<and> \<not> pixel_values_fit (10 ^ 400) False
   \<and> build_pixel_list real_of_int (10 ^ 400) False True = Inl OverflowError"
proof -
  have fit: "pixel_values_fit 0 False"
    by (rule zero_start_value)
  have unfit: "\<not> pixel_values_fit (10 ^ 400) False"
    by (rule overflowing_start_value)
  from build_pixel_list_shape [of 0 False real_of_int True] fit obtain pixels where
    "build_pixel_list real_of_int 0 False True = Inr pixels"
    "map length pixels = replicate PIECE_WIDTH NUMB_PIXEL_DIMENSIONS"
    by blast
  then have "map length (projr (build_pixel_list real_of_int 0 False True)) = [3, 3, 3, 3, 3]"
    by (simp add: PIECE_WIDTH_def NUMB_PIXEL_DIMENSIONS_def numeral_eq_Suc)
  moreover from build_pixel_list_shape [of "10 ^ 400" False real_of_int True] unfit
  have "build_pixel_list real_of_int (10 ^ 400) False True = Inl OverflowError"
    by blast
  ultimately show ?thesis
    using fit unfit by blast
qed

text \<open>
  C7 as stated fails at the start value \<open>10 ^ 400\<close>: no array is returned.
\<close>

theorem build_pixel_list_shape_counterexample:
  "build_pixel_list real_of_int (10 ^ 400) False False = Inl OverflowError"
  by (simp only: build_pixel_list_value overflowing_start_value if_False)

subsection \<open>The loops of build\_dummy\_array\<close>

lemma dummy_dim_loop_segment:
  assumes "r < length arr" and "c < length (arr ! r)" and "length (arr ! r ! c) = n2"
    and "k \<le> n2"
  shows "dummy_dim_loop store r c [k..<n2] (arr, base + int k)
         = Inr (arr[r := (arr ! r)[c := take k (arr ! r ! c)
                                     @ map (\<lambda>d. store (base + int d)) [k..<n2]]],
                base + int n2)"
  using assms
proof (induction "n2 - k" arbitrary: k arr)
  case 0
  then show ?case by simp
next
  case (Suc n)
  then have k: "k < n2" by simp
  let ?v = "store (base + int k)"
  let ?arr = "arr[r := (arr ! r)[c := (arr ! r ! c)[k := ?v]]]"
  have set: "array_set3 arr r c k ?v = Inr ?arr"
    using Suc.prems k by (simp add: array_set3_def)
  have cell: "?arr ! r ! c = (arr ! r ! c)[k := ?v]"
    using Suc.prems by simp
  have "dummy_dim_loop store r c [Suc k..<n2] (?arr, base + int (Suc k))
        = Inr (?arr[r := (?arr ! r)[c := take (Suc k) (?arr ! r ! c)
                                     @ map (\<lambda>d. store (base + int d)) [Suc k..<n2]]],
               base + int n2)"
    using Suc.hyps(2) Suc.prems k by (intro Suc.hyps(1)) simp_all
  also have "take (Suc k) (?arr ! r ! c) = take k (arr ! r ! c) @ [?v]"
    unfolding cell using Suc.prems k by (simp add: take_Suc_update)
  also have "?arr ! r = (arr ! r)[c := (arr ! r ! c)[k := ?v]]"
    using Suc.prems by simp
  finally have step:
    "dummy_dim_loop store r c [Suc k..<n2] (?arr, base + int (Suc k))
     = Inr (arr[r := (arr ! r)[c := take k (arr ! r ! c) @ ?v
                                     # map (\<lambda>d. store (base + int d)) [Suc k..<n2]]],
            base + int n2)"
    by simp
  have "dummy_dim_loop store r c [k..<n2] (arr, base + int k)
        = dummy_dim_loop store r c [Suc k..<n2] (?arr, base + int (Suc k))"
    using set k by (simp add: upt_conv_Cons ac_simps)
  with step k show ?case
    by (simp add: upt_conv_Cons)
qed

lemma dummy_dim_loop_cell:
  assumes "r < length arr" and "c < length (arr ! r)" and "length (arr ! r ! c) = n2"
  shows "dummy_dim_loop store r c (py_range 0 n2) (arr, v)
         = Inr (arr[r := (arr ! r)[c := map (\<lambda>d. store (v + int d)) [0..<n2]]],
                v + int n2)"
  using dummy_dim_loop_segment [OF assms, of 0 store v] by (simp add: py_range_def)

lemma dummy_col_loop_segment:
  assumes "r < length arr" and "length (arr ! r) = n1"
    and "\<forall>c<n1. length (arr ! r ! c) = n2" and "k \<le> n1"
  shows "dummy_col_loop store (n0, n1, n2) r [k..<n1] (arr, base + int (k * n2))
         = Inr (arr[r := take k (arr ! r)
                    @ map (\<lambda>c. map (\<lambda>d. store (base + int (c * n2 + d))) [0..<n2]) [k..<n1]],
                base + int (n1 * n2))"
  using assms
proof (induction "n1 - k" arbitrary: k arr)
  case 0
  then show ?case by simp
next
  case (Suc n)
  then have k: "k < n1" by simp
  let ?cell = "map (\<lambda>d. store (base + int (k * n2 + d))) [0..<n2]"
  let ?arr = "arr[r := (arr ! r)[k := ?cell]]"
  have "dummy_dim_loop store r k (py_range 0 n2) (arr, base + int (k * n2))
        = Inr (arr[r := (arr ! r)[k := map (\<lambda>d. store (base + int (k * n2) + int d)) [0..<n2]]],
               base + int (k * n2) + int n2)"
    using Suc.prems k by (intro dummy_dim_loop_cell) simp_all
  then have inner: "dummy_dim_loop store r k (py_range 0 n2) (arr, base + int (k * n2))
        = Inr (?arr, base + int (Suc k * n2))"
    by (simp add: algebra_simps)
  have rowv: "?arr ! r = (arr ! r)[k := ?cell]"
    using Suc.prems by simp
  have lens: "\<forall>c<n1. length (?arr ! r ! c) = n2"
    unfolding rowv using Suc.prems k by (simp add: nth_list_update)
  have "dummy_col_loop store (n0, n1, n2) r [Suc k..<n1] (?arr, base + int (Suc k * n2))
        = Inr (?arr[r := take (Suc k) (?arr ! r)
                    @ map (\<lambda>c. map (\<lambda>d. store (base + int (c * n2 + d))) [0..<n2]) [Suc k..<n1]],
               base + int (n1 * n2))"
    using Suc.hyps(2) Suc.prems(1,2) lens k by (intro Suc.hyps(1)) simp_all
  also have "take (Suc k) (?arr ! r) = take k (arr ! r) @ [?cell]"
    unfolding rowv using Suc.prems k by (simp add: take_Suc_update)
  finally have step:
    "dummy_col_loop store (n0, n1, n2) r [Suc k..<n1] (?arr, base + int (Suc k * n2))
     = Inr (arr[r := take k (arr ! r) @ ?cell
                    # map (\<lambda>c. map (\<lambda>d. store (base + int (c * n2 + d))) [0..<n2]) [Suc k..<n1]],
            base + int (n1 * n2))"
    by simp
  have "dummy_col_loop store (n0, n1, n2) r [k..<n1] (arr, base + int (k * n2))
        = dummy_col_loop store (n0, n1, n2) r [Suc k..<n1] (?arr, base + int (Suc k * n2))"
    using inner k by (simp add: upt_conv_Cons)
  with step k show ?case
    by (simp add: upt_conv_Cons)
qed

lemma dummy_col_loop_row:
  assumes "r < length arr" and "length (arr ! r) = n1"
    and "\<forall>c<n1. length (arr ! r ! c) = n2"
  shows "dummy_col_loop store (n0, n1, n2) r (py_range 0 n1) (arr, v)
         = Inr (arr[r := map (\<lambda>c. map (\<lambda>d. store (v + int (c * n2 + d))) [0..<n2]) [0..<n1]],
                v + int (n1 * n2))"
  using dummy_col_loop_segment [OF assms, of 0 store n0 v] by (simp add: py_range_def)

lemma dummy_row_loop_segment:
  assumes "length arr = n0" and "\<forall>r<n0. length (arr ! r) = n1"
    and "\<forall>r<n0. \<forall>c<n1. length (arr ! r ! c) = n2" and "k \<le> n0"
  shows "dummy_row_loop store (n0, n1, n2) [k..<n0] (arr, base + int (k * (n1 * n2)))
         = Inr (take k arr
                @ map (\<lambda>r. map (\<lambda>c. map (\<lambda>d. store (base + int (r * (n1 * n2) + (c * n2 + d))))
                                  [0..<n2]) [0..<n1]) [k..<n0],
                base + int (n0 * (n1 * n2)))"
  using assms
proof (induction "n0 - k" arbitrary: k arr)
  case 0
  then show ?case by simp
next
  case (Suc n)
  then have k: "k < n0" by simp
  let ?row = "map (\<lambda>c. map (\<lambda>d. store (base + int (k * (n1 * n2) + (c * n2 + d)))) [0..<n2]) [0..<n1]"
  let ?arr = "arr[k := ?row]"
  have "dummy_col_loop store (n0, n1, n2) k (py_range 0 n1) (arr, base + int (k * (n1 * n2)))
        = Inr (arr[k := map (\<lambda>c. map (\<lambda>d. store (base + int (k * (n1 * n2)) + int (c * n2 + d)))
                               [0..<n2]) [0..<n1]],
               base + int (k * (n1 * n2)) + int (n1 * n2))"
    using Suc.prems k by (intro dummy_col_loop_row) simp_all
  then have inner:
    "dummy_col_loop store (n0, n1, n2) k (py_range 0 n1) (arr, base + int (k * (n1 * n2)))
     = Inr (?arr, base + int (Suc k * (n1 * n2)))"
    by (simp add: algebra_simps)
  have lens1: "\<forall>r<n0. length (?arr ! r) = n1"
    using Suc.prems k by (simp add: nth_list_update)
  have lens2: "\<forall>r<n0. \<forall>c<n1. length (?arr ! r ! c) = n2"
    using Suc.prems k by (simp add: nth_list_update)
  have "dummy_row_loop store (n0, n1, n2) [Suc k..<n0] (?arr, base + int (Suc k * (n1 * n2)))
        = Inr (take (Suc k) ?arr
               @ map (\<lambda>r. map (\<lambda>c. map (\<lambda>d. store (base + int (r * (n1 * n2) + (c * n2 + d))))
                                  [0..<n2]) [0..<n1]) [Suc k..<n0],
               base + int (n0 * (n1 * n2)))"
    using Suc.hyps(2) Suc.prems(1) lens1 lens2 k by (intro Suc.hyps(1)) simp_all
  also have "take (Suc k) ?arr = take k arr @ [?row]"
    using Suc.prems k by (simp add: take_Suc_update)
  finally have step:
    "dummy_row_loop store (n0, n1, n2) [Suc k..<n0] (?arr, base + int (Suc k * (n1 * n2)))
     = Inr (take k arr @ ?row
               # map (\<lambda>r. map (\<lambda>c. map (\<lambda>d. store (base + int (r * (n1 * n2) + (c * n2 + d))))
                                  [0..<n2]) [0..<n1]) [Suc k..<n0],
            base + int (n0 * (n1 * n2)))"
    by simp
  have "dummy_row_loop store (n0, n1, n2) [k..<n0] (arr, base + int (k * (n1 * n2)))
        = dummy_row_loop store (n0, n1, n2) [Suc k..<n0] (?arr, base + int (Suc k * (n1 * n2)))"
    using inner k by (simp add: upt_conv_Cons)
  with step k show ?case
    by (simp add: upt_conv_Cons)
qed

lemma build_dummy_array_value:
  "build_dummy_array store
   = Inr (map (\<lambda>r. map (\<lambda>c. map (\<lambda>d. store (int (r * 45 + (c * 3 + d)))) [0..<3]) [0..<15])
            [0..<15])"
proof -
  have "dummy_row_loop store (15, 15, 3) [0..<15]
          (numpy_zeros3 (store 0) 15 15 3, 0 + int (0 * (15 * 3)))
        = Inr (take 0 (numpy_zeros3 (store 0) 15 15 3)
               @ map (\<lambda>r. map (\<lambda>c. map (\<lambda>d. store (0 + int (r * (15 * 3) + (c * 3 + d))))
                                  [0..<3]) [0..<15]) [0..<15],
               0 + int (15 * (15 * 3)))"
    by (intro dummy_row_loop_segment) (simp_all add: numpy_zeros3_def)
  then show ?thesis
    by (simp add: build_dummy_array_def math_sqrt_pieces PIECE_WIDTH_def
        NUMB_PIXEL_DIMENSIONS_def TEST_ARRAY_FIRST_PIXEL_VALUE_def py_range_def)
qed

lemma concat_blocks:
  "concat (map (\<lambda>r. map (\<lambda>c. g (r * n + c)) [0..<n]) [0..<m]) = map g [0..<m * n]"
proof (induction m)
  case 0
  then show ?case by simp
next
  case (Suc m)
  have "map (\<lambda>c. g (m * n + c)) [0..<n] = map g (map (\<lambda>c. c + m * n) [0..<n])"
    by (simp add: add.commute)
  also have "map (\<lambda>c. c + m * n) [0..<n] = [m * n..<n + m * n]"
    by (rule map_add_upt)
  also have "n + m * n = m * n + n"
    by simp
  finally have block: "map (\<lambda>c. g (m * n + c)) [0..<n] = map g [m * n..<m * n + n]" .
  have "[0..<m * n + n] = [0..<m * n] @ [m * n..<m * n + n]"
    by (rule upt_add_eq_append) simp
  moreover have "Suc m * n = m * n + n"
    by simp
  ultimately have "map g [0..<Suc m * n] = map g [0..<m * n] @ map g [m * n..<m * n + n]"
    by (simp only: map_append)
  with Suc block show ?case
    by (simp del: mult_Suc)
qed

lemma concat_twice: "concat (concat xss) = concat (map concat xss)"
  by (induction xss) simp_all

lemma build_dummy_array_flat:
  "concat (concat (map (\<lambda>r. map (\<lambda>c. map (\<lambda>d. store (int (r * 45 + (c * 3 + d)))) [0..<3])
                               [0..<15]) [0..<15]))
   = map (\<lambda>k. store (int k)) [0..<675]"
proof -
  have inner: "concat (map (\<lambda>c. map (\<lambda>d. store (int (r * 45 + (c * 3 + d)))) [0..<3]) [0..<15])
               = map (\<lambda>k. store (int (r * 45 + k))) [0..<45]" for r
    using concat_blocks [of "\<lambda>k. store (int (r * 45 + k))" 3 15] by simp
  have "concat (concat (map (\<lambda>r. map (\<lambda>c. map (\<lambda>d. store (int (r * 45 + (c * 3 + d)))) [0..<3])
                               [0..<15]) [0..<15]))
        = concat (map (\<lambda>r. concat (map (\<lambda>c. map (\<lambda>d. store (int (r * 45 + (c * 3 + d))))
                                            [0..<3]) [0..<15])) [0..<15])"
    by (simp add: concat_twice comp_def del: upt_Suc)
  also have "\<dots> = concat (map (\<lambda>r. map (\<lambda>k. store (int (r * 45 + k))) [0..<45]) [0..<15])"
    by (simp only: inner)
  also have "\<dots> = map (\<lambda>k. store (int k)) [0..<675]"
    using concat_blocks [of "\<lambda>k. store (int k)" 45 15] by simp
  finally show ?thesis .
qed

text \<open>
  C2. The builder returns a 15 by 15 by 3 array whose entry at (row, col, dim) is
  row * 45 + col * 3 + dim, so that its row-major traversal is 0, 1, ..., 674. With the
  cells read as numbers (a double holds each of these integers exactly), the traversal
  starts at 0, each entry is its predecessor plus 1, and it is strictly increasing.
\<close>

theorem build_dummy_array_row_major:
  "(\<exists>arr. build_dummy_array store = Inr arr
      \<and> length arr = 15
      \<and> (\<forall>r<15. length (arr ! r) = 15
            \<and> (\<forall>c<15. length (arr ! r ! c) = 3
                  \<and> (\<forall>d<3. arr ! r ! c ! d = store (int (r * 45 + c * 3 + d)))))
      \<and> concat (concat arr) = map (\<lambda>k. store (int k)) [0..<675])
   \<and> (\<exists>arr. build_dummy_array real_of_int = Inr arr
      \<and> concat (concat arr) ! 0 = 0
      \<and> (\<forall>k<674. concat (concat arr) ! Suc k = concat (concat arr) ! k + 1)
      \<and> sorted_wrt (<) (concat (concat arr)))"
proof (intro conjI)
  let ?arr = "map (\<lambda>r. map (\<lambda>c. map (\<lambda>d. store (int (r * 45 + (c * 3 + d)))) [0..<3]) [0..<15])
                [0..<15]"
  have "length ?arr = 15
      \<and> (\<forall>r<15. length (?arr ! r) = 15
            \<and> (\<forall>c<15. length (?arr ! r ! c) = 3
                  \<and> (\<forall>d<3. ?arr ! r ! c ! d = store (int (r * 45 + c * 3 + d)))))"
    by (simp add: add.assoc del: upt_Suc)
  then show "\<exists>arr. build_dummy_array store = Inr arr
      \<and> length arr = 15
      \<and> (\<forall>r<15. length (arr ! r) = 15
            \<and> (\<forall>c<15. length (arr ! r ! c) = 3
                  \<and> (\<forall>d<3. arr ! r ! c ! d = store (int (r * 45 + c * 3 + d)))))
      \<and> concat (concat arr) = map (\<lambda>k. store (int k)) [0..<675]"
    using build_dummy_array_value [of store] build_dummy_array_flat [of store] by blast
next
  let ?flat = "map (\<lambda>k. real_of_int (int k)) [0..<675]"
  have "?flat ! 0 = 0 \<and> (\<forall>k<674. ?flat ! Suc k = ?flat ! k + 1) \<and> sorted_wrt (<) ?flat"
    by (simp add: sorted_wrt_map del: upt_Suc)
  then show "\<exists>arr. build_dummy_array real_of_int = Inr arr
      \<and> concat (concat arr) ! 0 = 0
      \<and> (\<forall>k<674. concat (concat arr) ! Suc k = concat (concat arr) ! k + 1)
      \<and> sorted_wrt (<) (concat (concat arr))"
    using build_dummy_array_value [of real_of_int] build_dummy_array_flat [of real_of_int]
    by (metis (no_types, lifting))
qed

theorem build_dummy_array_row_major_witness:
  "projr (build_dummy_array real_of_int) ! 1 ! 2 ! 1 = 52
   \<and> length (projr (build_dummy_array real_of_int) ! 14 ! 14) = 3
   \<and> concat (concat (projr (build_dummy_array real_of_int))) ! Suc 52
       = concat (concat (projr (build_dummy_array real_of_int))) ! 52 + 1"
proof -
  from build_dummy_array_row_major [of real_of_int] obtain a b where
    a: "build_dummy_array real_of_int = Inr a"
      "\<forall>r<15. length (a ! r) = 15
            \<and> (\<forall>c<15. length (a ! r ! c) = 3
                  \<and> (\<forall>d<3. a ! r ! c ! d = real_of_int (int (r * 45 + c * 3 + d))))"
    and b: "build_dummy_array real_of_int = Inr b"
      "\<forall>k<674. concat (concat b) ! Suc k = concat (concat b) ! k + 1"
    by blast
  from a(2) have "a ! 1 ! 2 ! 1 = real_of_int (int (1 * 45 + 2 * 3 + 1))"
    and "length (a ! 14 ! 14) = 3"
    by simp_all
  moreover from b(2) [rule_format, of 52]
  have "concat (concat b) ! Suc 52 = concat (concat b) ! 52 + 1"
    by simp
  ultimately show ?thesis
    using a(1) b(1) by simp
qed

section \<open>Properties of puzzle construction\<close>

lemma length_make_pieces:
  "length (make_pieces i w g) = fst g * snd g"
  by (simp add: make_pieces_def py_range_def length_concat comp_def sum_list_triv)

lemma pieces_of_make_pieces:
  "list_all (\<lambda>piece. width piece = w \<and> priv_orig_puzzle_id piece = i
      \<and> priv_assigned_puzzle_id piece = None \<and> rotation piece = None) (make_pieces i w g)"
  by (auto simp: make_pieces_def list_all_iff)

text \<open>
  C6. A constructed puzzle has the grid size (height / piece width, width / piece width),
  both quotients exact, and as many pieces as the product of the two; a height or width
  that the piece width does not divide gives \<open>ConfigurationError\<close>, a result that
  holds no piece; and the puzzle built for the 300 by 200 test image with piece width 5
  passes the assertions of \<open>test_puzzle_creation\<close>.
\<close>

theorem Puzzle_init_grid:
  "(Puzzle_init i h w pw = Inr puzzle \<longrightarrow>
      priv_grid_size puzzle = (h div pw, w div pw)
      \<and> fst (priv_grid_size puzzle) * pw = h \<and> snd (priv_grid_size puzzle) * pw = w
      \<and> length (priv_pieces puzzle) = fst (priv_grid_size puzzle) * snd (priv_grid_size puzzle))
   \<and> (h mod pw \<noteq> 0 \<or> w mod pw \<noteq> 0 \<longrightarrow> Puzzle_init i h w pw = Inl ConfigurationError)
   \<and> (\<exists>puzzle. Puzzle_init 999 TEST_IMAGE_HEIGHT TEST_IMAGE_WIDTH PIECE_WIDTH = Inr puzzle
         \<and> test_puzzle_creation_asserts puzzle)"
proof -
  have built: "priv_grid_size puzzle = (h div pw, w div pw)
      \<and> fst (priv_grid_size puzzle) * pw = h \<and> snd (priv_grid_size puzzle) * pw = w
      \<and> length (priv_pieces puzzle) = fst (priv_grid_size puzzle) * snd (priv_grid_size puzzle)"
    if ok: "Puzzle_init i h w pw = Inr puzzle"
  proof -
    from ok have pw: "pw \<noteq> 0" and h: "h mod pw = 0" and w: "w mod pw = 0"
      by (auto simp: Puzzle_init_def split: if_splits)
    with ok have puzzle:
      "priv_grid_size puzzle = (h div pw, w div pw)"
      "priv_pieces puzzle = make_pieces i pw (h div pw, w div pw)"
      by (auto simp: Puzzle_init_def Let_def split: if_splits)
    from h w show ?thesis
      by (simp add: puzzle length_make_pieces mod_eq_0_iff_dvd)
  qed
  have refused: "Puzzle_init i h w pw = Inl ConfigurationError"
    if "h mod pw \<noteq> 0 \<or> w mod pw \<noteq> 0"
    using that by (auto simp: Puzzle_init_def)
  have tested: "\<exists>puzzle. Puzzle_init 999 TEST_IMAGE_HEIGHT TEST_IMAGE_WIDTH PIECE_WIDTH = Inr puzzle
         \<and> test_puzzle_creation_asserts puzzle"
    using pieces_of_make_pieces [of 5 999 "(40, 60)"]
    by (simp add: Puzzle_init_def Let_def test_puzzle_creation_asserts_def length_make_pieces
        TEST_IMAGE_HEIGHT_def TEST_IMAGE_WIDTH_def PIECE_WIDTH_def)
  from built refused tested show ?thesis
    by blast
qed

theorem Puzzle_init_grid_witness:
  "(\<exists>puzzle. Puzzle_init 7 10 15 5 = Inr puzzle
      \<and> priv_grid_size puzzle = (2, 3) \<and> length (priv_pieces puzzle) = 6)
   \<and> (11::nat) mod 5 \<noteq> 0
   \<and> Puzzle_init 7 11 15 5 = Inl ConfigurationError
   \<and> Puzzle_init 7 10 16 5 = Inl ConfigurationError"
proof -
  have built: "Puzzle_init 7 10 15 5
     = Inr \<lparr> priv_id = 7, priv_piece_width = 5, priv_img_height = 10, priv_img_width = 15,
             priv_grid_size = (2, 3), priv_pieces = make_pieces 7 5 (2, 3) \<rparr>"
    by (simp add: Puzzle_init_def Let_def)
  from Puzzle_init_grid [of 7 10 15 5
      "\<lparr> priv_id = 7, priv_piece_width = 5, priv_img_height = 10, priv_img_width = 15,
         priv_grid_size = (2, 3), priv_pieces = make_pieces 7 5 (2, 3) \<rparr>"] built
  have "length (make_pieces 7 5 (2, 3)) = 6"
    by simp
  with built Puzzle_init_grid [of 7 11 15 5] Puzzle_init_grid [of 7 10 16 5]
  show ?thesis
    by simp
qed

end
